theory Spec2Isabelle
  imports Main "HOL-Library.Char_ord" "HOL-Library.List_Lexorder" "HOL-Library.Product_Lexorder"
begin

section \<open>The sabre command line: data\<close>

text \<open>
  \<^verbatim>\<open>sabre.js\<close> is one script: it parses its arguments, reads the Solidity file, loads a
  compiler, resolves imports, compiles, submits the result to the MythX service and prints
  the issues. Everything it does to the outside (the console, the spinner, the file system,
  the compiler, the service, \<^verbatim>\<open>process.exit\<close>) is modelled as a trace of events and a
  final process status; everything the outside answers is a field of a \<open>world\<close> record.
\<close>

subsection \<open>Arguments and environment\<close>

text \<open>
  A positional argument as minimist leaves it. Only \<^verbatim>\<open>mode\<close> and \<^verbatim>\<open>format\<close> are declared
  strings (line 23), so a positional argument that looks like a number arrives as a
  Number and every other one as a string. A Number is given by the text that
  \<^verbatim>\<open>String(n)\<close> renders, which is all the script could use of it.
\<close>

datatype argument = Str string | Num string

text \<open>\<^verbatim>\<open>String(x)\<close> of a positional argument.\<close>

fun text_of :: "argument \<Rightarrow> string" where
  "text_of (Str s) = s"
| "text_of (Num n) = n"

text \<open>
  The object minimist returns: \<open>positional\<close> is \<^verbatim>\<open>args._\<close>; the booleans and the strings
  are the options declared at lines 21-25, \<open>version_opt\<close> and \<open>help_opt\<close> being
  \<^verbatim>\<open>args.version\<close> and \<^verbatim>\<open>args.help\<close> (\<open>mode\<close> and \<open>format\<close> are declared \<^verbatim>\<open>string\<close>,
  with defaults \<^verbatim>\<open>quick\<close> and \<^verbatim>\<open>text\<close>); \<open>clientToolName\<close> is undeclared and so optional.
  A \<^verbatim>\<open>--mode\<close> or \<^verbatim>\<open>--format\<close> that is repeated or negated reaches lines 57 and 63 as an
  array or as \<^verbatim>\<open>false\<close>; both checks reject it as they reject an unknown string, and it is
  not modelled apart from one.
\<close>

record args =
  positional :: "argument list"
  version_opt :: bool
  help_opt :: bool
  noCacheLookup :: bool
  debug :: bool
  mode :: string
  format :: string
  clientToolName :: "string option"

text \<open>The three variables read from \<^verbatim>\<open>process.env\<close> (lines 17-19); \<open>None\<close> is \<^verbatim>\<open>undefined\<close>.\<close>

record env =
  MYTHX_ETH_ADDRESS :: "string option"
  MYTHX_PASSWORD :: "string option"
  MYTHX_API_URL :: "string option"

subsection \<open>Objects passed between the stages\<close>

text \<open>
  A JavaScript object whose keys matter in order is an association list, in the order
  \<^verbatim>\<open>Object.keys\<close> lists them; the keys of an object are distinct. The keys here are
  absolute file paths, never array indices, so the order is the order of insertion.
  \<open>resolved[file]\<close> is an object with a \<open>body\<close>; \<open>allSources[file]\<close> is an object with a
  \<open>content\<close>.
\<close>

record resolvedSource =
  body :: string

record sourceUnit =
  content :: string

type_synonym 'a js_object = "(string \<times> 'a) list"

definition Object_keys :: "'a js_object \<Rightarrow> string list" where
  "Object_keys obj = map fst obj"

text \<open>
  \<^verbatim>\<open>obj[k] = v\<close>: an existing key keeps its place and takes the new value, a new key goes
  to the end.
\<close>

fun assign :: "string \<Rightarrow> 'a \<Rightarrow> 'a js_object \<Rightarrow> 'a js_object" where
  "assign k v [] = [(k, v)]"
| "assign k v ((k', v') # obj) = (if k' = k then (k, v) # obj else (k', v') # assign k v obj)"

text \<open>
  Modelled from the spec: the compiler input descriptor of section 4.4, "listing every
  source unit", which \<^verbatim>\<open>compiler.getSolcInput\<close> returns. The script itself reads only
  \<^verbatim>\<open>input.sources\<close> (line 161).
\<close>

record solcInput =
  input_sources :: "sourceUnit js_object"

text \<open>
  Modelled from the spec: \<^verbatim>\<open>compiler.getSolcInput\<close> (lib/compiler, not among the sources),
  called at line 115 with \<open>allSources\<close>: the descriptor lists every source unit it is
  given.
\<close>

definition getSolcInput :: "sourceUnit js_object \<Rightarrow> solcInput" where
  "getSolcInput allSources = \<lparr>input_sources = allSources\<rparr>"

text \<open>
  Modelled from the spec: the CompiledArtifact of section 3, which
  \<^verbatim>\<open>compiler.getCompiledContracts\<close> (lib/compiler, not among the sources) returns. The script
  itself reads only \<^verbatim>\<open>compiledData.contractName\<close>. A missing bytecode or source map is
  \<open>None\<close>.
\<close>

record compiledData =
  contractName :: string
  bytecode :: "string option"
  sourceMap :: "string option"
  ast :: string
  artifact_sourceList :: "string list"

text \<open>
  Modelled from the spec: the cache policy of an AnalysisRequest (section 3), which
  \<^verbatim>\<open>--noCacheLookup\<close> turns to \<open>Bypass\<close>.
\<close>

datatype cachePolicy = Allow | Bypass

text \<open>
  Modelled from the spec: the AnalysisRequest of section 3, the \<^verbatim>\<open>data\<close> object of the
  script. \<open>sources\<close> is the property the script itself assigns at line 161; it is absent
  (\<open>None\<close>) in a request as the spec describes it.
\<close>

record request =
  artifact :: compiledData
  sourceList :: "string list"
  analysisMode :: string
  toolName :: "string option"
  cachePolicy :: cachePolicy
  sources :: "sourceUnit js_object option"

text \<open>
  Modelled from the spec: the RequestBuilder of section 4.5, \<^verbatim>\<open>client.getRequestData\<close>
  (lib/client, not among the sources), called at lines 129-134 with the compiled data, the
  source list, the file path and the arguments. It is a pure transformation that fails
  only on an artifact without bytecode or source map (\<open>IncompleteArtifact\<close>); the failure
  is the text of the exception.
\<close>

definition getRequestData ::
  "compiledData \<Rightarrow> string list \<Rightarrow> string \<Rightarrow> args \<Rightarrow> string + request" where
  "getRequestData cd sl solidityFilePath a =
     (if bytecode cd = None \<or> sourceMap cd = None then Inl ''IncompleteArtifact''
      else Inr \<lparr>artifact = cd, sourceList = sl, analysisMode = mode a,
                toolName = clientToolName a,
                cachePolicy = (if noCacheLookup a then Bypass else Allow),
                sources = None\<rparr>)"

subsection \<open>Issues\<close>

text \<open>
  Modelled from the spec: the RawIssue of section 3, an element of \<^verbatim>\<open>result.issues\<close>. The
  severity is an enumeration whose values the spec leaves open; it is kept as its name.
  The location reference is opaque.
\<close>

record rawIssue =
  ruleId :: string
  severity :: string
  locationRef :: string
  message :: string

text \<open>
  Modelled from the spec: the CanonicalIssue of section 3, an element of what
  \<^verbatim>\<open>report.formatIssues\<close> returns.
\<close>

record canonicalIssue =
  c_ruleId :: string
  c_severity :: string
  filePath :: string
  line :: int
  column :: int
  c_message :: string

text \<open>
  Modelled from the spec: the status of an AnalysisResult (section 3), the value the
  analysis promise resolves with. The script reads only \<^verbatim>\<open>result.issues\<close> (line 170).
\<close>

datatype analysisStatus = Queued | Running | Succeeded | Failed | TimedOut

text \<open>
  Modelled from the spec: the AnalysisResult of section 3, with the status above. The
  script never reads the status.
\<close>

record analysisResult =
  status :: analysisStatus
  issues :: "rawIssue list"

text \<open>
  Modelled from the spec: the reasons of section 7 for which the analysis client can give
  up, the value the analysis promise rejects with. Each carries the text that
  \<^verbatim>\<open>String(err)\<close> gives, which is all the script uses of it (line 184).
\<close>

datatype analysisError =
    SubmissionError string
  | TransientNetworkError string
  | Timeout string

text \<open>Modelled from the spec: the text of a rejection, \<^verbatim>\<open>String(err)\<close>.\<close>

fun String_of :: "analysisError \<Rightarrow> string" where
  "String_of (SubmissionError s) = s"
| "String_of (TransientNetworkError s) = s"
| "String_of (Timeout s) = s"

section \<open>The outside\<close>

text \<open>
  What the script calls and does not define. A call that can throw, or a promise that can
  reject, answers with a sum: \<open>Inl\<close> carries what the handler of that failure prints
  (\<^verbatim>\<open>err.message\<close> for the \<^verbatim>\<open>try\<close> blocks, \<^verbatim>\<open>String(err)\<close> for the promise handlers).
  The compiler snapshot that \<^verbatim>\<open>solc.setupMethods\<close> builds (line 103) is determined by the
  text of the downloaded module and is represented by it. Every call is taken to answer:
  a download or an analysis that never settles is outside the model.

  \<^item> \<open>packageVersion\<close>: the version field of package.json;
  \<^item> \<open>path_resolve\<close>: \<^verbatim>\<open>path.resolve(process.cwd(), file)\<close>;
  \<^item> \<open>readFileSync\<close>: \<^verbatim>\<open>fs.readFileSync(path, 'utf8')\<close>;
  \<^item> \<open>getSolidityVersion\<close>, \<open>loadSolcVersion\<close>, \<open>getCompiledContracts\<close>: lib/compiler;
  \<^item> \<open>releases\<close>: the table of lib/releases, \<open>None\<close> where \<^verbatim>\<open>releases[version]\<close> is undefined;
  \<^item> \<open>resolveAllSources\<close>: the promise of \<^verbatim>\<open>Profiler.resolveAllSources\<close>;
  \<^item> \<open>getMythXReport\<close>: the promise of \<^verbatim>\<open>client.getMythXReport\<close>;
  \<^item> \<open>formatIssues\<close>, \<open>getFormatter\<close>: lib/report.
\<close>

type_synonym solcSnapshot = string

record world =
  packageVersion :: string
  path_resolve :: "string \<Rightarrow> string"
  readFileSync :: "string \<Rightarrow> string + string"
  getSolidityVersion :: "string \<Rightarrow> string + string"
  releases :: "string \<Rightarrow> string option"
  loadSolcVersion :: "string option \<Rightarrow> string + string"
  resolveAllSources :: "string \<Rightarrow> solcSnapshot \<Rightarrow> string + resolvedSource js_object"
  getCompiledContracts ::
    "solcInput \<Rightarrow> solcSnapshot \<Rightarrow> string \<Rightarrow> argument option \<Rightarrow> string + compiledData"
  getMythXReport ::
    "string option \<Rightarrow> string option \<Rightarrow> string option \<Rightarrow> request \<Rightarrow> nat \<Rightarrow> nat
      \<Rightarrow> analysisError + analysisResult"
  formatIssues :: "request \<Rightarrow> rawIssue list \<Rightarrow> canonicalIssue list"
  getFormatter :: "string \<Rightarrow> canonicalIssue list \<Rightarrow> string"

subsection \<open>What a run does\<close>

text \<open>
  \<open>Log c s\<close> is \<^verbatim>\<open>console.log\<close> of \<open>s\<close>, through \<^verbatim>\<open>chalk.red\<close> or \<^verbatim>\<open>chalk.green\<close> when \<open>c\<close>
  says so; \<open>Inspect_request\<close> and \<open>Inspect_result\<close> are \<^verbatim>\<open>console.log(util.inspect(...))\<close>;
  the \<open>Spinner\<close> events are the calls on an ora spinner; the others are the calls to the
  outside, with their arguments.
\<close>

datatype colour = Plain | Red | Green

datatype event =
    Log colour string
  | Inspect_request request
  | Inspect_result analysisResult
  | Spinner_start string
  | Spinner_succeed string
  | Spinner_fail string
  | Spinner_stop
  | Read_file string
  | Load_solc "string option"
  | Resolve_sources string solcSnapshot
  | Compile solcInput solcSnapshot string "argument option"
  | Build_request compiledData "string list" string
  | Submit "string option" "string option" "string option" request nat nat
  | Format_issues request "rawIssue list"

text \<open>
  How the process ends: \<open>Exit n\<close> is \<^verbatim>\<open>process.exit(n)\<close>; \<open>Drained\<close> is the script running
  to its end with nothing left to do, which Node reports as exit code 0 (nothing in the
  script sets \<^verbatim>\<open>process.exitCode\<close>); \<open>Uncaught\<close> is an exception no handler catches, which
  Node reports as exit code 1.
\<close>

datatype process_end = Exit int | Drained | Uncaught string

fun exit_code :: "process_end \<Rightarrow> int" where
  "exit_code (Exit n) = n"
| "exit_code Drained = 0"
| "exit_code (Uncaught _) = 1"

type_synonym run = "event list \<times> process_end"

definition emit :: "event list \<Rightarrow> run \<Rightarrow> run" where
  "emit evs r = (evs @ fst r, snd r)"

section \<open>The script\<close>

subsection \<open>Small pieces\<close>

definition newline :: char where
  "newline = CHR 0x0A"

definition dquote :: char where
  "dquote = CHR 0x22"

text \<open>The template literal of lines 27-41: every line ends with a line feed.\<close>

definition helpText :: string where
  "helpText = concat (map (\<lambda>l. l @ [newline])
    [''Minimum viable CLI for the MythX security analysis platform.'',
     [],
     ''USAGE:'',
     [],
     ''$ sabre [options] <solidity_file> [contract_name]'',
     [],
     ''OPTIONS:'',
     ''    --version                                       Print version'',
     ''    --help                                          Print help message'',
     ''    --mode <quick/full>                             Analysis mode (default=quick)'',
     ''    --format <text/stylish/compact/table/html/json> Output format (default=text)'',
     ''    --clientToolName <string>                       Override clientToolName'',
     ''    --noCacheLookup                                 Deactivate MythX cache lookups'',
     ''    --debug                                         Print MythX API request and response''])"

definition invalid_mode_message :: string where
  "invalid_mode_message =
     ''Invalid analysis mode. Please use either '' @ [dquote] @ ''quick'' @ [dquote] @
     '' or '' @ [dquote] @ ''full'' @ [dquote] @ ''.''"

definition invalid_format_message :: string where
  "invalid_format_message =
     ''Invalid output format. Please use '' @ [dquote] @ ''stylish'' @ [dquote] @ '', '' @
     [dquote] @ ''compact'' @ [dquote] @ '', '' @ [dquote] @ ''table'' @ [dquote] @ '', '' @
     [dquote] @ ''html'' @ [dquote] @ '' or '' @ [dquote] @ ''json'' @ [dquote] @ ''.''"

text \<open>\<^verbatim>\<open>xs.includes(x)\<close> and \<^verbatim>\<open>xs.indexOf(x)\<close>, which is -1 when \<open>x\<close> is not there.\<close>

definition array_includes :: "'a list \<Rightarrow> 'a \<Rightarrow> bool" where
  "array_includes xs x = (x \<in> set xs)"

fun indexOf :: "'a list \<Rightarrow> 'a \<Rightarrow> int" where
  "indexOf [] x = - 1"
| "indexOf (y # ys) x =
     (if y = x then 0 else (let i = indexOf ys x in if i < 0 then - 1 else i + 1))"

text \<open>\<^verbatim>\<open>args._[i]\<close>, undefined beyond the end, and its rendering in a template literal.\<close>

definition arg :: "args \<Rightarrow> nat \<Rightarrow> argument option" where
  "arg a i = (if i < length (positional a) then Some (positional a ! i) else None)"

fun template :: "argument option \<Rightarrow> string" where
  "template None = ''undefined''"
| "template (Some x) = text_of x"

text \<open>
  Truthiness of an environment variable: undefined and the empty string are falsy.
\<close>

fun truthy :: "string option \<Rightarrow> bool" where
  "truthy None = False"
| "truthy (Some s) = (s \<noteq> [])"

definition trial_address :: string where
  "trial_address = ''0x0000000000000000000000000000000000000000''"

definition trial_password :: string where
  "trial_password = ''trial''"

text \<open>Lines 72-75: the two variables after the fallback to the trial identity.\<close>

definition credentials :: "string option \<Rightarrow> string option \<Rightarrow> string option \<times> string option" where
  "credentials ethAddress password =
     (if \<not> (truthy ethAddress \<and> truthy password)
      then (Some trial_address, Some trial_password)
      else (ethAddress, password))"

text \<open>Lines 136-145: \<open>(initialDelay, timeout)\<close>, in milliseconds.\<close>

definition deadlines :: "args \<Rightarrow> nat \<times> nat" where
  "deadlines a =
     (if mode a = ''quick'' then (20 * 1000, 180 * 1000) else (300 * 1000, 2400 * 1000))"

text \<open>
  Lines 110-112: the \<^verbatim>\<open>forEach\<close> over \<open>sourceList\<close> that fills \<open>allSources\<close>. Reading
  \<^verbatim>\<open>.body\<close> of a file that \<open>resolved\<close> does not have throws a TypeError.
\<close>

fun collect_sources ::
  "resolvedSource js_object \<Rightarrow> string list \<Rightarrow> sourceUnit js_object
    \<Rightarrow> string + sourceUnit js_object" where
  "collect_sources resolved [] allSources = Inr allSources"
| "collect_sources resolved (file # files) allSources =
     (case map_of resolved file of
        None \<Rightarrow> Inl ''TypeError''
      | Some r \<Rightarrow> collect_sources resolved files (assign file \<lparr>content = body r\<rparr> allSources))"

text \<open>
  The check mark of line 174 is U+2714, three bytes in UTF-8.
\<close>

definition success_message :: "argument option \<Rightarrow> string \<Rightarrow> string" where
  "success_message file contract =
     [CHR 0xE2, CHR 0x9C, CHR 0x94] @ '' No errors/warnings found in '' @ template file @
     '' for contract: '' @ contract"

definition rule_line :: string where
  "rule_line = ''-------------------''"

subsection \<open>The handlers, innermost first\<close>

text \<open>Lines 181-185: the analysis promise rejects.\<close>

definition on_analysis_error :: "analysisError \<Rightarrow> run" where
  "on_analysis_error err =
     ([Spinner_fail ''Analysis failed'', Log Red (String_of err)], Drained)"

text \<open>
  Lines 156-180: the analysis promise resolves. \<open>data\<close> gets its \<open>sources\<close> property, a
  copy of \<^verbatim>\<open>input.sources\<close>, before the issues are formatted. The formatting and the
  formatter are taken not to throw (the spec gives them no failure); what they would
  throw would go to the handler of lines 181-185.
\<close>

definition on_analysis_result ::
  "world \<Rightarrow> args \<Rightarrow> solcInput \<Rightarrow> compiledData \<Rightarrow> request \<Rightarrow> analysisResult \<Rightarrow> run" where
  "on_analysis_result w a input compiledData data result =
     (let data' = data\<lparr>sources := Some (input_sources input)\<rparr>;
          uniqueIssues = formatIssues w data' (issues result)
      in ([Spinner_stop] @
          (if debug a
           then [Log Plain rule_line, Log Plain (''MythX Response Body:'' @ [newline]),
                 Inspect_result result, Log Plain rule_line]
           else []) @
          [Format_issues data' (issues result)] @
          (if length uniqueIssues = 0
           then [Log Green (success_message (arg a 0) (contractName compiledData))]
           else [Log Plain (getFormatter w (format a) uniqueIssues)]),
          Drained))"

text \<open>Lines 187-191: the resolution promise rejects, or its handler throws.\<close>

definition on_resolve_error :: "string \<Rightarrow> run" where
  "on_resolve_error err = ([Spinner_fail ''Resolving imports failed'', Log Red err], Drained)"

text \<open>Lines 107-186: the resolution promise resolves.\<close>

definition on_resolved ::
  "world \<Rightarrow> args \<Rightarrow> string option \<Rightarrow> string option \<Rightarrow> string option \<Rightarrow> solcSnapshot
    \<Rightarrow> string \<Rightarrow> string \<Rightarrow> resolvedSource js_object \<Rightarrow> run" where
  "on_resolved w a apiUrl ethAddress password solcSnapshot solidityFilePath version resolved =
     (let sourceList = Object_keys resolved in
      case collect_sources resolved sourceList [] of
        Inl err \<Rightarrow> on_resolve_error err
      | Inr allSources \<Rightarrow>
          (let input = getSolcInput allSources in
           emit [Compile input solcSnapshot solidityFilePath (arg a 1)]
            (case getCompiledContracts w input solcSnapshot solidityFilePath (arg a 1) of
               Inl msg \<Rightarrow> ([Log Red msg], Exit 1)
             | Inr compiledData \<Rightarrow>
                 emit [Spinner_succeed (''Compiled with solc v'' @ version @ '' successfully''),
                       Build_request compiledData sourceList solidityFilePath]
                  (case getRequestData compiledData sourceList solidityFilePath a of
                     Inl err \<Rightarrow> on_resolve_error err
                   | Inr data \<Rightarrow>
                       (let initialDelay = fst (deadlines a); timeout = snd (deadlines a) in
                        emit ((if debug a
                               then [Log Plain rule_line,
                                     Log Plain (''MythX Request Body:'' @ [newline]),
                                     Inspect_request data]
                               else []) @
                              [Spinner_start (''Analyzing '' @ contractName compiledData),
                               Submit apiUrl ethAddress password data initialDelay timeout])
                         (case getMythXReport w apiUrl ethAddress password data
                                 initialDelay timeout of
                            Inr result \<Rightarrow> on_analysis_result w a input compiledData data result
                          | Inl err \<Rightarrow> on_analysis_error err))))))"

text \<open>Lines 101-192: the callback of \<^verbatim>\<open>loadSolcVersion\<close>, given the text of the compiler.\<close>

definition on_solc_loaded ::
  "world \<Rightarrow> args \<Rightarrow> string option \<Rightarrow> string option \<Rightarrow> string option \<Rightarrow> string \<Rightarrow> string
    \<Rightarrow> string \<Rightarrow> run" where
  "on_solc_loaded w a apiUrl ethAddress password solidityFilePath version solcString =
     (let solcSnapshot = solcString in
      emit [Resolve_sources solidityFilePath solcSnapshot]
       (case resolveAllSources w solidityFilePath solcSnapshot of
          Inl err \<Rightarrow> on_resolve_error err
        | Inr resolved \<Rightarrow>
            on_resolved w a apiUrl ethAddress password solcSnapshot solidityFilePath version
              resolved))"

subsection \<open>The script, top to bottom\<close>

text \<open>
  Lines 96-197, once the file is read. \<^verbatim>\<open>getSolidityVersion\<close> is called outside every
  \<^verbatim>\<open>try\<close>; the \<^verbatim>\<open>try\<close> of lines 100-197 catches what \<^verbatim>\<open>loadSolcVersion\<close> throws.
\<close>

definition compile_and_analyse ::
  "world \<Rightarrow> args \<Rightarrow> string option \<Rightarrow> string option \<Rightarrow> string option \<Rightarrow> string \<Rightarrow> string
    \<Rightarrow> run" where
  "compile_and_analyse w a apiUrl ethAddress password solidityFilePath solidityCode =
     (case getSolidityVersion w solidityCode of
        Inl exn \<Rightarrow> ([], Uncaught exn)
      | Inr version \<Rightarrow>
          emit [Spinner_start (''Downloading solc v'' @ version), Load_solc (releases w version)]
           (case loadSolcVersion w (releases w version) of
              Inl msg \<Rightarrow>
                ([Spinner_fail (''Compilation with solc v'' @ version @ '' failed''),
                  Log Red msg], Drained)
            | Inr solcString \<Rightarrow>
                on_solc_loaded w a apiUrl ethAddress password solidityFilePath version
                  solcString))"

text \<open>
  Lines 43-85 and then the rest. \<^verbatim>\<open>path.resolve\<close> (line 69, outside every \<^verbatim>\<open>try\<close>) throws
  a TypeError on an argument that is not a string: on an undefined one, which line 51
  excludes, and on a Number, which nothing excludes.
\<close>

definition sabre :: "world \<Rightarrow> env \<Rightarrow> args \<Rightarrow> run" where
  "sabre w e a =
     (if version_opt a then ([Log Plain (packageVersion w)], Exit 0)
      else if length (positional a) = 0 \<or> help_opt a then ([Log Plain helpText], Exit 0)
      else if \<not> array_includes [''quick'', ''full''] (mode a)
        then ([Log Plain invalid_mode_message], Exit (- 1))
      else if indexOf [''stylish'', ''compact'', ''table'', ''html'', ''json'', ''text'']
                (format a) < 0
        then ([Log Plain invalid_format_message], Exit (- 1))
      else
        (case arg a 0 of
           None \<Rightarrow> ([], Uncaught ''TypeError'')
         | Some (Num n) \<Rightarrow> ([], Uncaught ''TypeError'')
         | Some (Str file) \<Rightarrow>
             (let solidityFilePath = path_resolve w file;
                  ethAddress = fst (credentials (MYTHX_ETH_ADDRESS e) (MYTHX_PASSWORD e));
                  password = snd (credentials (MYTHX_ETH_ADDRESS e) (MYTHX_PASSWORD e))
              in emit [Read_file solidityFilePath]
                  (case readFileSync w solidityFilePath of
                     Inl msg \<Rightarrow>
                       ([Log Plain (''Error opening input file '' @ msg)], Exit (- 1))
                   | Inr solidityCode \<Rightarrow>
                       compile_and_analyse w a (MYTHX_API_URL e) ethAddress password
                         solidityFilePath solidityCode))))"

section \<open>The issue normalizer\<close>

text \<open>
  Modelled from the spec: the IssueNormalizer of section 4.7, \<^verbatim>\<open>report.formatIssues\<close>
  (lib/report, not among the sources). How a location reference is resolved through the
  source map against the source list is not described, so the resolution is the parameter
  \<open>resolve\<close>, \<open>None\<close> where no source-map entry matches; \<open>entryFile\<close> is the file of the
  sentinel location. Each raw issue is resolved, inserted into a working set keyed by
  (ruleId, filePath, line, column) that keeps the first issue seen under a key, and the
  set is sorted by (filePath, line, column), ties in arrival order. The working set is a
  list in arrival order; \<open>sort_key\<close> is an insertion sort and is stable. In the script the
  call of \<^verbatim>\<open>report.formatIssues\<close> is the field \<open>formatIssues\<close> of the outside, so that what
  is proved of the script holds for any implementation of it.
\<close>

type_synonym location = "string \<times> int \<times> int"

text \<open>
  Modelled from the spec: the location resolution of section 4.7. An issue whose reference
  does not resolve is kept, at the sentinel location: the entry file, line 0, column 0.
\<close>

definition resolve_issue ::
  "(string \<Rightarrow> location option) \<Rightarrow> string \<Rightarrow> rawIssue \<Rightarrow> canonicalIssue" where
  "resolve_issue resolve entryFile r =
     (case resolve (locationRef r) of
        Some (f, l, c) \<Rightarrow>
          \<lparr>c_ruleId = ruleId r, c_severity = severity r, filePath = f, line = l,
           column = c, c_message = message r\<rparr>
      | None \<Rightarrow>
          \<lparr>c_ruleId = ruleId r, c_severity = severity r, filePath = entryFile, line = 0,
           column = 0, c_message = message r\<rparr>)"

text \<open>
  Modelled from the spec: the key of the working set of section 4.7, (ruleId, filePath,
  line, column).
\<close>

definition issue_key :: "canonicalIssue \<Rightarrow> string \<times> string \<times> int \<times> int" where
  "issue_key c = (c_ruleId c, filePath c, line c, column c)"

text \<open>
  Modelled from the spec: the sort order of section 3, by (filePath, line, column),
  compared lexicographically.
\<close>

definition position :: "canonicalIssue \<Rightarrow> location" where
  "position c = (filePath c, line c, column c)"

text \<open>
  Modelled from the spec: the insertion into the working set of section 4.7, which keeps
  the issue first seen under a key.
\<close>

definition insert_issue :: "canonicalIssue list \<Rightarrow> canonicalIssue \<Rightarrow> canonicalIssue list" where
  "insert_issue ws c = (if issue_key c \<in> issue_key ` set ws then ws else ws @ [c])"

text \<open>
  Modelled from the spec: the IssueNormalizer of section 4.7 as a whole: resolve, insert in
  arrival order, sort.
\<close>

definition IssueNormalizer ::
  "(string \<Rightarrow> location option) \<Rightarrow> string \<Rightarrow> rawIssue list \<Rightarrow> canonicalIssue list" where
  "IssueNormalizer resolve entryFile rs =
     sort_key position (foldl insert_issue [] (map (resolve_issue resolve entryFile) rs))"

section \<open>Reading a trace\<close>

text \<open>The texts of the spinner failures of a trace, in order.\<close>

fun failure_messages :: "event list \<Rightarrow> string list" where
  "failure_messages [] = []"
| "failure_messages (Spinner_fail s # evs) = s # failure_messages evs"
| "failure_messages (_ # evs) = failure_messages evs"

text \<open>
  The events from the resolution of the imports on: those of the callback of
  \<^verbatim>\<open>loadSolcVersion\<close> that are calls to the outside.
\<close>

fun pipeline_event :: "event \<Rightarrow> bool" where
  "pipeline_event (Resolve_sources _ _) = True"
| "pipeline_event (Compile _ _ _ _) = True"
| "pipeline_event (Build_request _ _ _) = True"
| "pipeline_event (Submit _ _ _ _ _ _) = True"
| "pipeline_event (Format_issues _ _) = True"
| "pipeline_event _ = False"

text \<open>The calls of a trace that build a request, and those that submit one.\<close>

fun builds :: "event list \<Rightarrow> (compiledData \<times> string list \<times> string) list" where
  "builds [] = []"
| "builds (Build_request cd sl p # evs) = (cd, sl, p) # builds evs"
| "builds (_ # evs) = builds evs"

fun submissions :: "event list \<Rightarrow> request list" where
  "submissions [] = []"
| "submissions (Submit u ad pw d i t # evs) = d # submissions evs"
| "submissions (_ # evs) = submissions evs"


section \<open>A sample run\<close>

text \<open>
  One file without imports, \<^verbatim>\<open>Token.sol\<close>, that compiles to one contract; the service
  finds nothing. The variations below change one answer of the outside each.
\<close>

definition sample_code :: string where
  "sample_code = ''pragma solidity ^0.5.0; contract Token { }''"

definition sample_artifact :: compiledData where
  "sample_artifact =
     \<lparr>contractName = ''Token'', bytecode = Some ''0x6080'', sourceMap = Some ''0:42:0'',
      ast = ''{}'', artifact_sourceList = [''/work/Token.sol'']\<rparr>"

definition sample_world :: world where
  "sample_world =
     \<lparr>packageVersion = ''1.0.0'',
      path_resolve = (\<lambda>file. ''/work/'' @ file),
      readFileSync = (\<lambda>p. if p = ''/work/Token.sol'' then Inr sample_code
                           else Inl ''ENOENT: no such file or directory''),
      getSolidityVersion = (\<lambda>code. Inr ''0.5.0''),
      releases = (\<lambda>v. if v = ''0.5.0'' then Some ''v0.5.0+commit.1d4f565a'' else None),
      loadSolcVersion = (\<lambda>r. case r of None \<Rightarrow> Inl ''no such release'' | Some _ \<Rightarrow> Inr ''soljson''),
      resolveAllSources = (\<lambda>p snapshot. Inr [(p, \<lparr>body = sample_code\<rparr>)]),
      getCompiledContracts = (\<lambda>input snapshot p hint. Inr sample_artifact),
      getMythXReport = (\<lambda>url ad pw d i t. Inr \<lparr>status = Succeeded, issues = []\<rparr>),
      formatIssues = (\<lambda>d. IssueNormalizer (\<lambda>ref. None) ''/work/Token.sol''),
      getFormatter = (\<lambda>fmt cs. ''issues'')\<rparr>"

definition sample_env :: env where
  "sample_env = \<lparr>MYTHX_ETH_ADDRESS = None, MYTHX_PASSWORD = None, MYTHX_API_URL = None\<rparr>"

definition sample_args :: args where
  "sample_args =
     \<lparr>positional = [Str ''Token.sol''], version_opt = False, help_opt = False,
      noCacheLookup = False, debug = False, mode = ''quick'', format = ''text'',
      clientToolName = None\<rparr>"

definition sample_sources :: "sourceUnit js_object" where
  "sample_sources = [(''/work/Token.sol'', \<lparr>content = sample_code\<rparr>)]"

definition sample_request :: request where
  "sample_request =
     \<lparr>artifact = sample_artifact, sourceList = [''/work/Token.sol''],
      analysisMode = ''quick'', toolName = None, cachePolicy = Allow, sources = None\<rparr>"

definition sample_issue :: rawIssue where
  "sample_issue =
     \<lparr>ruleId = ''SWC-101'', severity = ''High'', locationRef = ''120:8:0'',
      message = ''Integer overflow''\<rparr>"

text \<open>The trace of the sample run up to and including the submission.\<close>

definition sample_prefix :: "event list" where
  "sample_prefix =
     [Read_file ''/work/Token.sol'',
      Spinner_start ''Downloading solc v0.5.0'',
      Load_solc (Some ''v0.5.0+commit.1d4f565a''),
      Resolve_sources ''/work/Token.sol'' ''soljson'',
      Compile \<lparr>input_sources = sample_sources\<rparr> ''soljson'' ''/work/Token.sol'' None,
      Spinner_succeed ''Compiled with solc v0.5.0 successfully'',
      Build_request sample_artifact [''/work/Token.sol''] ''/work/Token.sol'',
      Spinner_start ''Analyzing Token'',
      Submit None (Some trial_address) (Some trial_password) sample_request 20000 180000]"

text \<open>The compiler rejects the file.\<close>

definition broken_world :: world where
  "broken_world =
     sample_world\<lparr>getCompiledContracts :=
       (\<lambda>input snapshot p hint. Inl ''ParserError: Expected pragma, import directive or contract'')\<rparr>"

text \<open>The analysis promise rejects: the service refuses the request, or the deadline passes.\<close>

definition refusing_world :: world where
  "refusing_world =
     sample_world\<lparr>getMythXReport :=
       (\<lambda>url ad pw d i t. Inl (SubmissionError ''Error: Invalid request''))\<rparr>"

definition slow_world :: world where
  "slow_world =
     sample_world\<lparr>getMythXReport :=
       (\<lambda>url ad pw d i t. Inl (Timeout ''Error: Timeout reached''))\<rparr>"

text \<open>The deadline passes and the analysis promise resolves, with a result that says so.\<close>

definition late_world :: world where
  "late_world =
     sample_world\<lparr>getMythXReport :=
       (\<lambda>url ad pw d i t. Inr \<lparr>status = TimedOut, issues = []\<rparr>)\<rparr>"

text \<open>
  \<^verbatim>\<open>Token.sol\<close> imports \<^verbatim>\<open>SafeMath.sol\<close>. The resolver lists the entry file first; the
  compiler reports its sources in the order of their names.
\<close>

definition library_code :: string where
  "library_code = ''pragma solidity ^0.5.0; library SafeMath { }''"

definition two_resolved :: "resolvedSource js_object" where
  "two_resolved =
     [(''/work/Token.sol'', \<lparr>body = sample_code\<rparr>),
      (''/work/SafeMath.sol'', \<lparr>body = library_code\<rparr>)]"

definition two_sources :: "sourceUnit js_object" where
  "two_sources =
     [(''/work/Token.sol'', \<lparr>content = sample_code\<rparr>),
      (''/work/SafeMath.sol'', \<lparr>content = library_code\<rparr>)]"

definition two_artifact :: compiledData where
  "two_artifact =
     sample_artifact\<lparr>artifact_sourceList := [''/work/SafeMath.sol'', ''/work/Token.sol'']\<rparr>"

definition two_world :: world where
  "two_world =
     sample_world\<lparr>resolveAllSources := (\<lambda>p snapshot. Inr two_resolved),
                  getCompiledContracts := (\<lambda>input snapshot p hint. Inr two_artifact)\<rparr>"

definition two_request :: request where
  "two_request =
     \<lparr>artifact = two_artifact, sourceList = [''/work/Token.sol'', ''/work/SafeMath.sol''],
      analysisMode = ''quick'', toolName = None, cachePolicy = Allow, sources = None\<rparr>"

section \<open>Facts about the pieces\<close>

text \<open>\<^verbatim>\<open>indexOf\<close> is negative exactly on the values that are not in the array.\<close>

lemma indexOf_negative: "indexOf xs x < 0 \<longleftrightarrow> x \<notin> set xs"
  by (induction xs) (auto simp: Let_def)

lemma indexOf_range: "- 1 \<le> indexOf xs x"
  by (induction xs) (auto simp: Let_def)




section \<open>Reaching the pipeline\<close>

text \<open>
  A run whose trace has an event of the pipeline has passed every check of lines 43-85,
  has read the file, found its compiler version and loaded the compiler: it is the three
  events of that prelude followed by the callback of \<^verbatim>\<open>loadSolcVersion\<close>.
\<close>

lemmas handler_defs = on_resolved_def on_analysis_result_def on_analysis_error_def
  on_resolve_error_def emit_def Let_def

lemma sabre_pipeline:
  assumes "ev \<in> set (fst (sabre w e a))" and "pipeline_event ev"
  shows "\<exists>file rest code ver solc.
           positional a = Str file # rest \<and> \<not> version_opt a \<and> \<not> help_opt a \<and>
           (mode a = ''quick'' \<or> mode a = ''full'') \<and>
           readFileSync w (path_resolve w file) = Inr code \<and>
           getSolidityVersion w code = Inr ver \<and>
           loadSolcVersion w (releases w ver) = Inr solc \<and>
           sabre w e a =
             emit [Read_file (path_resolve w file),
                   Spinner_start (''Downloading solc v'' @ ver),
                   Load_solc (releases w ver)]
               (on_solc_loaded w a (MYTHX_API_URL e)
                 (fst (credentials (MYTHX_ETH_ADDRESS e) (MYTHX_PASSWORD e)))
                 (snd (credentials (MYTHX_ETH_ADDRESS e) (MYTHX_PASSWORD e)))
                 (path_resolve w file) ver solc) \<and>
           ev \<in> set (fst (on_solc_loaded w a (MYTHX_API_URL e)
                 (fst (credentials (MYTHX_ETH_ADDRESS e) (MYTHX_PASSWORD e)))
                 (snd (credentials (MYTHX_ETH_ADDRESS e) (MYTHX_PASSWORD e)))
                 (path_resolve w file) ver solc))"
proof -
  let ?formats = "[''stylish'', ''compact'', ''table'', ''html'', ''json'', ''text'']"
  from assms have flags: "\<not> version_opt a" "\<not> help_opt a" "positional a \<noteq> []"
    and ok: "array_includes [''quick'', ''full''] (mode a)"
    and fmt: "\<not> indexOf ?formats (format a) < 0"
    by (auto simp: sabre_def simp del: indexOf.simps split: if_splits)
  then obtain first rest where first: "positional a = first # rest"
    by (cases "positional a") auto
  have "first \<noteq> Num n" for n
  proof
    assume "first = Num n"
    with first flags ok fmt have "sabre w e a = ([], Uncaught ''TypeError'')"
      by (simp add: sabre_def arg_def del: indexOf.simps)
    with assms(1) show False by simp
  qed
  then obtain entry where "first = Str entry" by (cases first) auto
  with first have pos: "positional a = Str entry # rest" by simp
  then have arg0: "arg a 0 = Some (Str entry)" by (simp add: arg_def)
  let ?p = "path_resolve w entry"
  let ?ad = "fst (credentials (MYTHX_ETH_ADDRESS e) (MYTHX_PASSWORD e))"
  let ?pw = "snd (credentials (MYTHX_ETH_ADDRESS e) (MYTHX_PASSWORD e))"
  have start: "sabre w e a =
      emit [Read_file ?p]
        (case readFileSync w ?p of
           Inl msg \<Rightarrow> ([Log Plain (''Error opening input file '' @ msg)], Exit (- 1))
         | Inr code \<Rightarrow> compile_and_analyse w a (MYTHX_API_URL e) ?ad ?pw ?p code)"
    using flags ok fmt pos arg0 by (simp add: sabre_def Let_def del: indexOf.simps)
  with assms obtain code where code: "readFileSync w ?p = Inr code"
    by (cases "readFileSync w ?p") (auto simp: emit_def)
  from assms start code obtain ver where ver: "getSolidityVersion w code = Inr ver"
    by (cases "getSolidityVersion w code") (auto simp: compile_and_analyse_def emit_def)
  from assms start code ver obtain solc
    where solc: "loadSolcVersion w (releases w ver) = Inr solc"
    by (cases "loadSolcVersion w (releases w ver)")
      (auto simp: compile_and_analyse_def emit_def)
  have run: "sabre w e a =
      emit [Read_file ?p, Spinner_start (''Downloading solc v'' @ ver), Load_solc (releases w ver)]
        (on_solc_loaded w a (MYTHX_API_URL e) ?ad ?pw ?p ver solc)"
    using start code ver solc by (simp add: compile_and_analyse_def emit_def)
  with assms have "ev \<in> set (fst (on_solc_loaded w a (MYTHX_API_URL e) ?ad ?pw ?p ver solc))"
    by (auto simp: emit_def)
  with flags ok pos code ver solc run show ?thesis
    by (auto simp: array_includes_def)
qed

subsection \<open>The callback of \<^verbatim>\<open>loadSolcVersion\<close>\<close>

lemma stage_deadlines:
  assumes "Submit u ad pw d i t \<in> set (fst (on_solc_loaded w a u0 ad0 pw0 p ver solc))"
  shows "i = fst (deadlines a) \<and> t = snd (deadlines a)"
  using assms
  by (auto simp: on_solc_loaded_def handler_defs split: sum.splits if_splits)

lemma stage_compile_error:
  assumes "Compile inp snap q h \<in> set (fst (on_solc_loaded w a u0 ad0 pw0 p ver solc))"
    and "getCompiledContracts w inp snap q h = Inl msg"
  shows "on_solc_loaded w a u0 ad0 pw0 p ver solc =
           ([Resolve_sources p solc, Compile inp snap q h, Log Red msg], Exit 1)"
  using assms
  by (auto simp: on_solc_loaded_def handler_defs split: sum.splits if_splits)

lemma stage_built_once:
  "length (builds (fst (on_solc_loaded w a u0 ad0 pw0 p ver solc))) \<le> 1 \<and>
   length (submissions (fst (on_solc_loaded w a u0 ad0 pw0 p ver solc))) \<le> 1"
  by (auto simp: on_solc_loaded_def handler_defs split: sum.splits if_splits)

lemma stage_submitted:
  assumes "Submit u ad pw d i t \<in> set (fst (on_solc_loaded w a u0 ad0 pw0 p ver solc))"
  shows "u = u0 \<and> ad = ad0 \<and> pw = pw0 \<and>
         submissions (fst (on_solc_loaded w a u0 ad0 pw0 p ver solc)) = [d] \<and>
         (\<exists>cd sl. builds (fst (on_solc_loaded w a u0 ad0 pw0 p ver solc)) = [(cd, sl, p)] \<and>
                  getRequestData cd sl p a = Inr d)"
  using assms
  by (auto simp: on_solc_loaded_def handler_defs split: sum.splits if_splits)

lemma stage_formatted:
  assumes "Format_issues d' iss \<in> set (fst (on_solc_loaded w a u0 ad0 pw0 p ver solc))"
    and "Compile inp snap q h \<in> set (fst (on_solc_loaded w a u0 ad0 pw0 p ver solc))"
    and "Submit u ad pw d i t \<in> set (fst (on_solc_loaded w a u0 ad0 pw0 p ver solc))"
  shows "d' = d\<lparr>sources := Some (input_sources inp)\<rparr>"
  using assms
  by (auto simp: on_solc_loaded_def handler_defs split: sum.splits if_splits)

lemma stage_rejection:
  assumes "Submit u ad pw d i t \<in> set (fst (on_solc_loaded w a u0 ad0 pw0 p ver solc))"
    and "getMythXReport w u ad pw d i t = Inl err"
  shows "failure_messages (fst (on_solc_loaded w a u0 ad0 pw0 p ver solc)) = [''Analysis failed''] \<and>
         last (fst (on_solc_loaded w a u0 ad0 pw0 p ver solc)) = Log Red (String_of err) \<and>
         snd (on_solc_loaded w a u0 ad0 pw0 p ver solc) = Drained"
  using assms
  by (auto simp: on_solc_loaded_def handler_defs split: sum.splits if_splits)

lemma stage_no_issues:
  assumes "Format_issues d iss \<in> set (fst (on_solc_loaded w a u0 ad0 pw0 p ver solc))"
    and "formatIssues w d iss = []"
    and "Build_request cd sl q \<in> set (fst (on_solc_loaded w a u0 ad0 pw0 p ver solc))"
  shows "last (fst (on_solc_loaded w a u0 ad0 pw0 p ver solc)) =
           Log Green (success_message (arg a 0) (contractName cd)) \<and>
         snd (on_solc_loaded w a u0 ad0 pw0 p ver solc) = Drained"
  using assms
  by (auto simp: on_solc_loaded_def handler_defs split: sum.splits if_splits)

text \<open>A trace without events of the pipeline builds no request and submits none.\<close>

lemma quiet_trace:
  assumes "\<forall>ev \<in> set evs. \<not> pipeline_event ev"
  shows "builds evs = [] \<and> submissions evs = []"
  using assms
proof (induction evs)
  case Nil
  then show ?case by simp
next
  case (Cons ev evs)
  then have "\<not> pipeline_event ev" and "builds evs = [] \<and> submissions evs = []"
    by simp_all
  then show ?case by (cases ev) simp_all
qed

section \<open>The sample runs\<close>

lemmas sample_defs = sample_world_def sample_env_def sample_args_def sample_prefix_def
  sample_request_def sample_sources_def sample_artifact_def broken_world_def
  refusing_world_def slow_world_def late_world_def two_world_def two_resolved_def
  two_sources_def two_artifact_def two_request_def

lemmas run_defs = sabre_def compile_and_analyse_def on_solc_loaded_def handler_defs
  array_includes_def arg_def credentials_def Object_keys_def getSolcInput_def
  getRequestData_def deadlines_def IssueNormalizer_def

lemma sample_run:
  "sabre sample_world sample_env sample_args =
     (sample_prefix @
      [Spinner_stop, Format_issues (sample_request\<lparr>sources := Some sample_sources\<rparr>) [],
       Log Green (success_message (Some (Str ''Token.sol'')) ''Token'')], Drained)"
  by (simp add: run_defs sample_defs)

lemma full_run:
  "fst (sabre sample_world sample_env (sample_args\<lparr>mode := ''full''\<rparr>)) =
     butlast sample_prefix @
     [Submit None (Some trial_address) (Some trial_password)
        (sample_request\<lparr>analysisMode := ''full''\<rparr>) 300000 2400000,
      Spinner_stop,
      Format_issues (sample_request\<lparr>analysisMode := ''full'', sources := Some sample_sources\<rparr>) [],
      Log Green (success_message (Some (Str ''Token.sol'')) ''Token'')]"
  by (simp add: run_defs sample_defs)

lemma broken_run:
  "sabre broken_world sample_env sample_args =
     ([Read_file ''/work/Token.sol'',
       Spinner_start ''Downloading solc v0.5.0'',
       Load_solc (Some ''v0.5.0+commit.1d4f565a''),
       Resolve_sources ''/work/Token.sol'' ''soljson'',
       Compile \<lparr>input_sources = sample_sources\<rparr> ''soljson'' ''/work/Token.sol'' None,
       Log Red ''ParserError: Expected pragma, import directive or contract''], Exit 1)"
  by (simp add: run_defs sample_defs)

lemma refusing_run:
  "sabre refusing_world sample_env sample_args =
     (sample_prefix @ [Spinner_fail ''Analysis failed'', Log Red ''Error: Invalid request''],
      Drained)"
  by (simp add: run_defs sample_defs)




section \<open>The claims\<close>

subsection \<open>C1: the mode decides the polling budget\<close>

text \<open>
  C1. Whenever a run submits a request to the analysis client, the initial delay and
  the timeout it passes are decided by the mode: 20000 ms and 180000 ms in mode
  \<^verbatim>\<open>quick\<close>; otherwise the mode is \<^verbatim>\<open>full\<close> and they are 300000 ms and 2400000 ms.
\<close>

theorem mode_determines_deadlines:
  assumes "Submit u ad pw d i t \<in> set (fst (sabre w e a))"
  shows "(mode a = ''quick'' \<longrightarrow> i = 20000 \<and> t = 180000) \<and>
         (mode a \<noteq> ''quick'' \<longrightarrow> mode a = ''full'' \<and> i = 300000 \<and> t = 2400000)"
proof -
  from sabre_pipeline [OF assms] obtain p ver solc u0 ad0 pw0
    where mode: "mode a = ''quick'' \<or> mode a = ''full''"
      and "Submit u ad pw d i t \<in> set (fst (on_solc_loaded w a u0 ad0 pw0 p ver solc))"
    by auto
  then have "i = fst (deadlines a)" and "t = snd (deadlines a)"
    using stage_deadlines by blast+
  with mode show ?thesis by (auto simp: deadlines_def)
qed

theorem mode_determines_deadlines_witness:
  "Submit None (Some trial_address) (Some trial_password) sample_request 20000 180000
     \<in> set (fst (sabre sample_world sample_env sample_args)) \<and>
   mode sample_args = ''quick'' \<and>
   Submit None (Some trial_address) (Some trial_password)
     (sample_request\<lparr>analysisMode := ''full''\<rparr>) 300000 2400000
     \<in> set (fst (sabre sample_world sample_env (sample_args\<lparr>mode := ''full''\<rparr>))) \<and>
   mode (sample_args\<lparr>mode := ''full''\<rparr>) = ''full''"
proof -
  have quick: "Submit None (Some trial_address) (Some trial_password) sample_request 20000 180000
      \<in> set (fst (sabre sample_world sample_env sample_args))"
    by (simp add: sample_run sample_prefix_def)
  have full: "Submit None (Some trial_address) (Some trial_password)
      (sample_request\<lparr>analysisMode := ''full''\<rparr>) 300000 2400000
      \<in> set (fst (sabre sample_world sample_env (sample_args\<lparr>mode := ''full''\<rparr>)))"
    by (simp add: full_run sample_prefix_def)
  from mode_determines_deadlines [OF quick] mode_determines_deadlines [OF full] quick full
  show ?thesis by (simp add: sample_args_def)
qed

subsection \<open>C2: a compilation error ends the run with code 1\<close>

text \<open>
  C2. When the compiler is called and reports an error, the process exits with code 1,
  the last thing it prints is the text of the compiler, in red, and the trace has no
  call that builds a request and none that submits one.
\<close>

theorem compilation_error_stops_pipeline:
  assumes "Compile inp snap q h \<in> set (fst (sabre w e a))"
    and "getCompiledContracts w inp snap q h = Inl msg"
  shows "snd (sabre w e a) = Exit 1 \<and> last (fst (sabre w e a)) = Log Red msg \<and>
         builds (fst (sabre w e a)) = [] \<and> submissions (fst (sabre w e a)) = []"
proof -
  from sabre_pipeline [OF assms(1)] obtain pre p ver solc u0 ad0 pw0
    where run: "sabre w e a =
        emit [Read_file p, Spinner_start pre, Load_solc (releases w ver)]
          (on_solc_loaded w a u0 ad0 pw0 p ver solc)"
      and "Compile inp snap q h \<in> set (fst (on_solc_loaded w a u0 ad0 pw0 p ver solc))"
    by auto
  with assms(2) have "on_solc_loaded w a u0 ad0 pw0 p ver solc =
      ([Resolve_sources p solc, Compile inp snap q h, Log Red msg], Exit 1)"
    by (intro stage_compile_error)
  with run show ?thesis by (simp add: emit_def)
qed

theorem compilation_error_stops_pipeline_witness:
  "Compile \<lparr>input_sources = sample_sources\<rparr> ''soljson'' ''/work/Token.sol'' None
     \<in> set (fst (sabre broken_world sample_env sample_args)) \<and>
   getCompiledContracts broken_world \<lparr>input_sources = sample_sources\<rparr> ''soljson''
     ''/work/Token.sol'' None =
     Inl ''ParserError: Expected pragma, import directive or contract'' \<and>
   snd (sabre broken_world sample_env sample_args) = Exit 1 \<and>
   last (fst (sabre broken_world sample_env sample_args)) =
     Log Red ''ParserError: Expected pragma, import directive or contract'' \<and>
   builds (fst (sabre broken_world sample_env sample_args)) = [] \<and>
   submissions (fst (sabre broken_world sample_env sample_args)) = []"
proof -
  have called: "Compile \<lparr>input_sources = sample_sources\<rparr> ''soljson'' ''/work/Token.sol'' None
      \<in> set (fst (sabre broken_world sample_env sample_args))"
    by (simp add: broken_run)
  have failed: "getCompiledContracts broken_world \<lparr>input_sources = sample_sources\<rparr> ''soljson''
      ''/work/Token.sol'' None =
      Inl ''ParserError: Expected pragma, import directive or contract''"
    by (simp add: broken_world_def)
  from compilation_error_stops_pipeline [OF called failed] called failed
  show ?thesis by simp
qed

subsection \<open>C3: invalid arguments and unreadable files\<close>

text \<open>
  C3, as stated, fails: the checks of \<^verbatim>\<open>--version\<close> and \<^verbatim>\<open>--help\<close> come first (lines
  43-55), so an invocation with \<^verbatim>\<open>--version\<close> and an unknown mode prints the version and
  exits with code 0.
\<close>

theorem invalid_mode_after_version_counterexample:
  "mode (sample_args\<lparr>version_opt := True, mode := ''fast''\<rparr>) \<notin> {''quick'', ''full''} \<and>
   sabre sample_world sample_env (sample_args\<lparr>version_opt := True, mode := ''fast''\<rparr>) =
     ([Log Plain ''1.0.0''], Exit 0)"
  by (simp add: sabre_def sample_world_def sample_args_def)

text \<open>
  C3, amended. For an invocation that asks for neither the version nor the help and has
  a positional argument: an unknown mode gives the mode message and exit code -1; a known
  mode with an unknown format gives the format message and exit code -1; with both
  known, an entry file whose name is a string and that cannot be read gives the read
  call, its error message, and exit code -1. In each of the three cases the trace has no
  event of the pipeline.
\<close>

theorem invalid_input_exits_minus_one:
  assumes "\<not> version_opt a" and "positional a \<noteq> []" and "\<not> help_opt a"
  shows "(mode a \<notin> {''quick'', ''full''} \<longrightarrow>
            sabre w e a = ([Log Plain
               (''Invalid analysis mode. Please use either '' @ [CHR 0x22] @ ''quick'' @
                [CHR 0x22] @ '' or '' @ [CHR 0x22] @ ''full'' @ [CHR 0x22] @ ''.'')], Exit (- 1))) \<and>
         (mode a \<in> {''quick'', ''full''} \<longrightarrow>
          format a \<notin> {''stylish'', ''compact'', ''table'', ''html'', ''json'', ''text''} \<longrightarrow>
            sabre w e a = ([Log Plain
               (''Invalid output format. Please use '' @ [CHR 0x22] @ ''stylish'' @
                [CHR 0x22] @ '', '' @ [CHR 0x22] @ ''compact'' @ [CHR 0x22] @ '', '' @
                [CHR 0x22] @ ''table'' @ [CHR 0x22] @ '', '' @ [CHR 0x22] @ ''html'' @
                [CHR 0x22] @ '' or '' @ [CHR 0x22] @ ''json'' @ [CHR 0x22] @ ''.'')], Exit (- 1))) \<and>
         (mode a \<in> {''quick'', ''full''} \<longrightarrow>
          format a \<in> {''stylish'', ''compact'', ''table'', ''html'', ''json'', ''text''} \<longrightarrow>
          hd (positional a) = Str name \<longrightarrow>
          readFileSync w (path_resolve w name) = Inl msg \<longrightarrow>
            sabre w e a =
              ([Read_file (path_resolve w name),
                Log Plain (''Error opening input file '' @ msg)], Exit (- 1))) \<and>
         (mode a \<notin> {''quick'', ''full''} \<or>
          format a \<notin> {''stylish'', ''compact'', ''table'', ''html'', ''json'', ''text''} \<or>
          hd (positional a) = Str name \<and> readFileSync w (path_resolve w name) = Inl msg \<longrightarrow>
            exit_code (snd (sabre w e a)) = - 1 \<and>
            (\<forall>ev \<in> set (fst (sabre w e a)). \<not> pipeline_event ev))"
proof -
  let ?formats = "[''stylish'', ''compact'', ''table'', ''html'', ''json'', ''text'']"
  from assms(2) obtain first rest where pos: "positional a = first # rest"
    by (cases "positional a") auto
  have bad_mode: "sabre w e a = ([Log Plain invalid_mode_message], Exit (- 1))"
    if "mode a \<notin> {''quick'', ''full''}"
    using that assms pos by (simp add: sabre_def array_includes_def)
  have bad_format: "sabre w e a = ([Log Plain invalid_format_message], Exit (- 1))"
    if "mode a \<in> {''quick'', ''full''}" and "format a \<notin> set ?formats"
    using that assms pos indexOf_negative [of ?formats "format a"]
    by (simp add: sabre_def array_includes_def del: indexOf.simps)
  have unreadable: "sabre w e a =
      ([Read_file (path_resolve w name), Log Plain (''Error opening input file '' @ msg)],
       Exit (- 1))"
    if "mode a \<in> {''quick'', ''full''}" and "format a \<in> set ?formats"
      and "first = Str name" and "readFileSync w (path_resolve w name) = Inl msg"
  proof -
    from pos that(3) have "arg a 0 = Some (Str name)" by (simp add: arg_def)
    with that assms pos indexOf_negative [of ?formats "format a"] show ?thesis
      by (simp add: sabre_def array_includes_def emit_def Let_def del: indexOf.simps)
  qed
  show ?thesis
    using bad_mode bad_format unreadable pos
    unfolding invalid_mode_message_def invalid_format_message_def dquote_def
    by (cases "mode a \<in> {''quick'', ''full''}"; cases "format a \<in> set ?formats") auto
qed

theorem invalid_input_exits_minus_one_witness:
  "\<not> version_opt (sample_args\<lparr>mode := ''fast''\<rparr>) \<and>
   positional (sample_args\<lparr>mode := ''fast''\<rparr>) \<noteq> [] \<and>
   \<not> help_opt (sample_args\<lparr>mode := ''fast''\<rparr>) \<and>
   mode (sample_args\<lparr>mode := ''fast''\<rparr>) \<notin> {''quick'', ''full''} \<and>
   sabre sample_world sample_env (sample_args\<lparr>mode := ''fast''\<rparr>) =
     ([Log Plain
        (''Invalid analysis mode. Please use either '' @ [CHR 0x22] @ ''quick'' @
         [CHR 0x22] @ '' or '' @ [CHR 0x22] @ ''full'' @ [CHR 0x22] @ ''.'')], Exit (- 1)) \<and>
   format (sample_args\<lparr>format := ''pdf''\<rparr>) \<notin>
     {''stylish'', ''compact'', ''table'', ''html'', ''json'', ''text''} \<and>
   sabre sample_world sample_env (sample_args\<lparr>format := ''pdf''\<rparr>) =
     ([Log Plain
        (''Invalid output format. Please use '' @ [CHR 0x22] @ ''stylish'' @
         [CHR 0x22] @ '', '' @ [CHR 0x22] @ ''compact'' @ [CHR 0x22] @ '', '' @
         [CHR 0x22] @ ''table'' @ [CHR 0x22] @ '', '' @ [CHR 0x22] @ ''html'' @
         [CHR 0x22] @ '' or '' @ [CHR 0x22] @ ''json'' @ [CHR 0x22] @ ''.'')], Exit (- 1)) \<and>
   hd (positional (sample_args\<lparr>positional := [Str ''Missing.sol'']\<rparr>)) = Str ''Missing.sol'' \<and>
   readFileSync sample_world (path_resolve sample_world ''Missing.sol'') =
     Inl ''ENOENT: no such file or directory'' \<and>
   sabre sample_world sample_env (sample_args\<lparr>positional := [Str ''Missing.sol'']\<rparr>) =
     ([Read_file ''/work/Missing.sol'',
       Log Plain ''Error opening input file ENOENT: no such file or directory''], Exit (- 1))"
  using
    invalid_input_exits_minus_one [where a = "sample_args\<lparr>mode := ''fast''\<rparr>"
      and w = sample_world and e = sample_env and name = "''Missing.sol''"
      and msg = "''ENOENT: no such file or directory''"]
    invalid_input_exits_minus_one [where a = "sample_args\<lparr>format := ''pdf''\<rparr>"
      and w = sample_world and e = sample_env and name = "''Missing.sol''"
      and msg = "''ENOENT: no such file or directory''"]
    invalid_input_exits_minus_one [where a = "sample_args\<lparr>positional := [Str ''Missing.sol'']\<rparr>"
      and w = sample_world and e = sample_env and name = "''Missing.sol''"
      and msg = "''ENOENT: no such file or directory''"]
  by (simp add: sample_args_def sample_world_def)

text \<open>
  What the amended claim leaves out: an entry file whose name looks like a number reaches
  \<^verbatim>\<open>path.resolve\<close> as a Number, and the TypeError it throws is caught by nothing. The
  script prints no message of its own and Node ends with exit code 1, whether or not
  such a file exists.
\<close>

lemma numeric_file_name_uncaught:
  assumes "\<not> version_opt a" and "\<not> help_opt a" and "positional a = Num n # rest"
    and "mode a \<in> {''quick'', ''full''}"
    and "format a \<in> {''stylish'', ''compact'', ''table'', ''html'', ''json'', ''text''}"
  shows "sabre w e a = ([], Uncaught ''TypeError'') \<and> exit_code (snd (sabre w e a)) = 1"
proof -
  let ?formats = "[''stylish'', ''compact'', ''table'', ''html'', ''json'', ''text'']"
  from assms(3) have "arg a 0 = Some (Num n)" by (simp add: arg_def)
  with assms indexOf_negative [of ?formats "format a"]
  have "sabre w e a = ([], Uncaught ''TypeError'')"
    by (simp add: sabre_def array_includes_def del: indexOf.simps)
  then show ?thesis by simp
qed

lemma numeric_file_name_sample:
  "sabre sample_world sample_env (sample_args\<lparr>positional := [Num ''123'']\<rparr>) =
     ([], Uncaught ''TypeError'')"
  using numeric_file_name_uncaught [of "sample_args\<lparr>positional := [Num ''123'']\<rparr>" "''123''" "[]"
      sample_world sample_env]
  by (simp add: sample_args_def)

subsection \<open>C4: the request after its submission\<close>

text \<open>
  C4, as stated, fails: in the sample run the request handed to the formatting of the
  issues is not the request that was submitted; line 161 has given it a \<open>sources\<close>
  property in between.
\<close>

theorem request_changed_after_submission_counterexample:
  "Submit None (Some trial_address) (Some trial_password) sample_request 20000 180000
     \<in> set (fst (sabre sample_world sample_env sample_args)) \<and>
   Format_issues (sample_request\<lparr>sources := Some sample_sources\<rparr>) []
     \<in> set (fst (sabre sample_world sample_env sample_args)) \<and>
   sample_request\<lparr>sources := Some sample_sources\<rparr> \<noteq> sample_request"
  by (simp add: sample_run sample_prefix_def sample_request_def)

text \<open>
  C4, amended. A run builds at most one request and submits at most one; a submitted
  request is the one the only call of \<^verbatim>\<open>getRequestData\<close> returned; and the request that
  the issues are formatted with is the submitted one with its \<open>sources\<close> property set to
  the sources of the compiler input, and nothing else changed.
\<close>

theorem request_built_once_then_sources_set:
  "length (builds (fst (sabre w e a))) \<le> 1 \<and>
   length (submissions (fst (sabre w e a))) \<le> 1 \<and>
   (\<forall>u ad pw d i t. Submit u ad pw d i t \<in> set (fst (sabre w e a)) \<longrightarrow>
      (\<exists>cd sl p. builds (fst (sabre w e a)) = [(cd, sl, p)] \<and>
                 getRequestData cd sl p a = Inr d) \<and>
      (\<forall>d' iss inp snap q h.
         Format_issues d' iss \<in> set (fst (sabre w e a)) \<longrightarrow>
         Compile inp snap q h \<in> set (fst (sabre w e a)) \<longrightarrow>
         d' = d\<lparr>sources := Some (input_sources inp)\<rparr>))"
proof (cases "\<exists>ev \<in> set (fst (sabre w e a)). pipeline_event ev")
  case True
  then obtain ev where "ev \<in> set (fst (sabre w e a))" and "pipeline_event ev" by blast
  from sabre_pipeline [OF this] obtain pre p ver solc u0 ad0 pw0
    where run: "sabre w e a =
        emit [Read_file p, Spinner_start pre, Load_solc (releases w ver)]
          (on_solc_loaded w a u0 ad0 pw0 p ver solc)"
    by auto
  let ?S = "on_solc_loaded w a u0 ad0 pw0 p ver solc"
  have builds: "builds (fst (sabre w e a)) = builds (fst ?S)"
    and submissions: "submissions (fst (sabre w e a)) = submissions (fst ?S)"
    by (simp_all add: run emit_def)
  have submit: "Submit u ad pw d i t \<in> set (fst ?S)"
    if "Submit u ad pw d i t \<in> set (fst (sabre w e a))" for u ad pw d i t
    using that by (simp add: run emit_def)
  have format: "Format_issues d iss \<in> set (fst ?S)"
    if "Format_issues d iss \<in> set (fst (sabre w e a))" for d iss
    using that by (simp add: run emit_def)
  have compile: "Compile inp snap q h \<in> set (fst ?S)"
    if "Compile inp snap q h \<in> set (fst (sabre w e a))" for inp snap q h
    using that by (simp add: run emit_def)
  have once: "length (builds (fst (sabre w e a))) \<le> 1"
    "length (submissions (fst (sabre w e a))) \<le> 1"
    using stage_built_once [of w a u0 ad0 pw0 p ver solc] by (simp_all add: builds submissions)
  have built: "\<exists>cd sl p. builds (fst (sabre w e a)) = [(cd, sl, p)] \<and>
      getRequestData cd sl p a = Inr d"
    if "Submit u ad pw d i t \<in> set (fst (sabre w e a))" for u ad pw d i t
    using stage_submitted [OF submit [OF that]] by (auto simp: builds)
  have changed: "d' = d\<lparr>sources := Some (input_sources inp)\<rparr>"
    if "Submit u ad pw d i t \<in> set (fst (sabre w e a))"
      and "Format_issues d' iss \<in> set (fst (sabre w e a))"
      and "Compile inp snap q h \<in> set (fst (sabre w e a))"
    for u ad pw d i t d' iss inp snap q h
    using stage_formatted [OF format [OF that(2)] compile [OF that(3)] submit [OF that(1)]] .
  show ?thesis
  proof (intro conjI allI impI)
    show "length (builds (fst (sabre w e a))) \<le> 1" by (rule once)
    show "length (submissions (fst (sabre w e a))) \<le> 1" by (rule once)
  next
    fix u ad pw d i t
    assume "Submit u ad pw d i t \<in> set (fst (sabre w e a))"
    then show "\<exists>cd sl p. builds (fst (sabre w e a)) = [(cd, sl, p)] \<and>
        getRequestData cd sl p a = Inr d"
      by (rule built)
  next
    fix u ad pw d i t d' iss inp snap q h
    assume "Submit u ad pw d i t \<in> set (fst (sabre w e a))"
      and "Format_issues d' iss \<in> set (fst (sabre w e a))"
      and "Compile inp snap q h \<in> set (fst (sabre w e a))"
    then show "d' = d\<lparr>sources := Some (input_sources inp)\<rparr>"
      by (rule changed)
  qed
next
  case False
  then have quiet: "\<forall>ev \<in> set (fst (sabre w e a)). \<not> pipeline_event ev" by simp
  from quiet_trace [OF quiet] have "builds (fst (sabre w e a)) = []"
    and "submissions (fst (sabre w e a)) = []"
    by simp_all
  moreover have "Submit u ad pw d i t \<notin> set (fst (sabre w e a))" for u ad pw d i t
  proof
    assume "Submit u ad pw d i t \<in> set (fst (sabre w e a))"
    with quiet have "\<not> pipeline_event (Submit u ad pw d i t)" by blast
    then show False by simp
  qed
  ultimately show ?thesis by simp
qed

theorem request_built_once_then_sources_set_witness:
  "Submit None (Some trial_address) (Some trial_password) sample_request 20000 180000
     \<in> set (fst (sabre sample_world sample_env sample_args)) \<and>
   Format_issues (sample_request\<lparr>sources := Some sample_sources\<rparr>) []
     \<in> set (fst (sabre sample_world sample_env sample_args)) \<and>
   Compile \<lparr>input_sources = sample_sources\<rparr> ''soljson'' ''/work/Token.sol'' None
     \<in> set (fst (sabre sample_world sample_env sample_args)) \<and>
   sample_request\<lparr>sources := Some sample_sources\<rparr> =
     sample_request\<lparr>sources := Some (input_sources \<lparr>input_sources = sample_sources\<rparr>)\<rparr> \<and>
   length (builds (fst (sabre sample_world sample_env sample_args))) \<le> 1"
proof -
  let ?tr = "fst (sabre sample_world sample_env sample_args)"
  have submitted: "Submit None (Some trial_address) (Some trial_password) sample_request
      20000 180000 \<in> set ?tr"
    by (simp add: sample_run sample_prefix_def)
  have formatted: "Format_issues (sample_request\<lparr>sources := Some sample_sources\<rparr>) [] \<in> set ?tr"
    by (simp add: sample_run)
  have compiled: "Compile \<lparr>input_sources = sample_sources\<rparr> ''soljson'' ''/work/Token.sol'' None
      \<in> set ?tr"
    by (simp add: sample_run sample_prefix_def)
  note built = request_built_once_then_sources_set [of sample_world sample_env sample_args]
  from built submitted formatted compiled
  have "sample_request\<lparr>sources := Some sample_sources\<rparr> =
      sample_request\<lparr>sources := Some (input_sources \<lparr>input_sources = sample_sources\<rparr>)\<rparr>"
    by blast
  moreover from built have "length (builds ?tr) \<le> 1" by blast
  ultimately show ?thesis using submitted formatted compiled by blast
qed

subsection \<open>C5: the exit code when the analysis fails\<close>

text \<open>
  Whenever the analysis promise rejects, the handler of lines 181-185 prints and
  returns: nothing calls \<^verbatim>\<open>process.exit\<close>, and the process ends with exit code 0.
\<close>

lemma analysis_rejection_drains:
  assumes "Submit u ad pw d i t \<in> set (fst (sabre w e a))"
    and "getMythXReport w u ad pw d i t = Inl err"
  shows "snd (sabre w e a) = Drained \<and> exit_code (snd (sabre w e a)) = 0"
proof -
  from sabre_pipeline [OF assms(1)] obtain pre p ver solc u0 ad0 pw0
    where run: "sabre w e a =
        emit [Read_file p, Spinner_start pre, Load_solc (releases w ver)]
          (on_solc_loaded w a u0 ad0 pw0 p ver solc)"
      and "Submit u ad pw d i t \<in> set (fst (on_solc_loaded w a u0 ad0 pw0 p ver solc))"
    by auto
  with assms(2) have "snd (on_solc_loaded w a u0 ad0 pw0 p ver solc) = Drained"
    using stage_rejection by blast
  with run show ?thesis by (simp add: emit_def)
qed

text \<open>
  C5 asks for a nonzero exit code when the submission fails. In the sample run with a
  service that refuses the request, the script prints the failure and ends with exit
  code 0.
\<close>

theorem refused_submission_exits_zero:
  "getMythXReport refusing_world None (Some trial_address) (Some trial_password)
     sample_request 20000 180000 = Inl (SubmissionError ''Error: Invalid request'') \<and>
   sabre refusing_world sample_env sample_args =
     (sample_prefix @ [Spinner_fail ''Analysis failed'', Log Red ''Error: Invalid request''],
      Drained) \<and>
   exit_code (snd (sabre refusing_world sample_env sample_args)) = 0"
proof -
  have "getMythXReport refusing_world None (Some trial_address) (Some trial_password)
      sample_request 20000 180000 = Inl (SubmissionError ''Error: Invalid request'')"
    by (simp add: refusing_world_def)
  moreover have "exit_code (snd (sabre refusing_world sample_env sample_args)) = 0"
    by (simp add: refusing_run)
  ultimately show ?thesis using refusing_run by simp
qed

subsection \<open>C6: no issues\<close>

text \<open>
  C6. When the analysis resolves and the formatting of the issues returns none, the last
  thing the run prints is the success message, in green, made of the first positional
  argument (a string, in such a run) and of the name of the compiled contract, and the
  process ends with exit code 0.
\<close>

theorem no_issues_reports_success:
  assumes "Format_issues d iss \<in> set (fst (sabre w e a))"
    and "formatIssues w d iss = []"
    and "Build_request cd sl q \<in> set (fst (sabre w e a))"
  shows "positional a \<noteq> [] \<and>
         hd (positional a) = Str (text_of (hd (positional a))) \<and>
         last (fst (sabre w e a)) =
           Log Green ([CHR 0xE2, CHR 0x9C, CHR 0x94] @ '' No errors/warnings found in '' @
                      text_of (hd (positional a)) @ '' for contract: '' @ contractName cd) \<and>
         snd (sabre w e a) = Drained \<and> exit_code (snd (sabre w e a)) = 0"
proof -
  from sabre_pipeline [OF assms(1)] obtain entry rest pre p ver solc u0 ad0 pw0
    where pos: "positional a = Str entry # rest"
      and run: "sabre w e a =
        emit [Read_file p, Spinner_start pre, Load_solc (releases w ver)]
          (on_solc_loaded w a u0 ad0 pw0 p ver solc)"
      and fmt: "Format_issues d iss \<in> set (fst (on_solc_loaded w a u0 ad0 pw0 p ver solc))"
    by auto
  let ?S = "on_solc_loaded w a u0 ad0 pw0 p ver solc"
  from assms(3) run have "Build_request cd sl q \<in> set (fst ?S)"
    by (simp add: emit_def)
  with fmt assms(2)
  have "last (fst ?S) = Log Green (success_message (arg a 0) (contractName cd))"
    and "snd ?S = Drained"
    using stage_no_issues by blast+
  moreover from fmt have "fst ?S \<noteq> []" by auto
  moreover from pos have "arg a 0 = Some (hd (positional a))" by (simp add: arg_def)
  ultimately show ?thesis
    using pos run by (simp add: emit_def success_message_def)
qed

theorem no_issues_reports_success_witness:
  "Format_issues (sample_request\<lparr>sources := Some sample_sources\<rparr>) []
     \<in> set (fst (sabre sample_world sample_env sample_args)) \<and>
   formatIssues sample_world (sample_request\<lparr>sources := Some sample_sources\<rparr>) [] = [] \<and>
   Build_request sample_artifact [''/work/Token.sol''] ''/work/Token.sol''
     \<in> set (fst (sabre sample_world sample_env sample_args)) \<and>
   last (fst (sabre sample_world sample_env sample_args)) =
     Log Green ([CHR 0xE2, CHR 0x9C, CHR 0x94] @
                '' No errors/warnings found in Token.sol for contract: Token'') \<and>
   exit_code (snd (sabre sample_world sample_env sample_args)) = 0"
proof -
  have formatted: "Format_issues (sample_request\<lparr>sources := Some sample_sources\<rparr>) []
      \<in> set (fst (sabre sample_world sample_env sample_args))"
    by (simp add: sample_run)
  have none: "formatIssues sample_world (sample_request\<lparr>sources := Some sample_sources\<rparr>) [] = []"
    by (simp add: sample_world_def IssueNormalizer_def)
  have built: "Build_request sample_artifact [''/work/Token.sol''] ''/work/Token.sol''
      \<in> set (fst (sabre sample_world sample_env sample_args))"
    by (simp add: sample_run sample_prefix_def)
  from no_issues_reports_success [OF formatted none built] formatted none built
  show ?thesis by (simp add: sample_args_def sample_artifact_def)
qed

subsection \<open>C7: duplicates among the issues\<close>

text \<open>
  Facts about the normalizer as the spec describes it: the keys it has seen are the keys
  of the issues it was given, no key appears twice in its result, and its result is sorted
  by position.
\<close>

lemma insert_issue_keys:
  "issue_key ` set (insert_issue ws c) = insert (issue_key c) (issue_key ` set ws)"
  by (auto simp: insert_issue_def)

lemma foldl_insert_keys:
  "issue_key ` set (foldl insert_issue ws cs) = issue_key ` set ws \<union> issue_key ` set cs"
  by (induction cs arbitrary: ws) (auto simp: insert_issue_keys)

lemma insert_issue_known: "issue_key c \<in> issue_key ` set ws \<Longrightarrow> insert_issue ws c = ws"
  by (simp add: insert_issue_def)

lemma dedup_later_duplicate:
  assumes "issue_key c' = issue_key c"
  shows "foldl insert_issue ws (as @ c # bs @ c' # cs) = foldl insert_issue ws (as @ c # bs @ cs)"
proof -
  let ?seen = "foldl insert_issue ws (as @ c # bs)"
  have "issue_key c' \<in> issue_key ` set ?seen"
    using assms by (simp add: foldl_insert_keys insert_issue_keys)
  then have "insert_issue ?seen c' = ?seen"
    by (rule insert_issue_known)
  then show ?thesis by simp
qed

lemma insert_issue_distinct:
  "distinct (map issue_key ws) \<Longrightarrow> distinct (map issue_key (insert_issue ws c))"
  by (auto simp: insert_issue_def)

lemma foldl_insert_distinct:
  "distinct (map issue_key ws) \<Longrightarrow> distinct (map issue_key (foldl insert_issue ws cs))"
  by (induction cs arbitrary: ws) (auto simp: insert_issue_distinct)

lemma normalizer_keys_distinct: "distinct (map issue_key (IssueNormalizer resolve entry rs))"
proof -
  let ?ws = "foldl insert_issue [] (map (resolve_issue resolve entry) rs)"
  have "distinct (map issue_key ?ws)" by (rule foldl_insert_distinct) simp
  then show ?thesis
    unfolding IssueNormalizer_def by (simp add: distinct_map)
qed

lemma normalizer_keeps_every_key:
  "issue_key ` set (IssueNormalizer resolve entry rs) =
     issue_key ` resolve_issue resolve entry ` set rs"
  by (simp add: IssueNormalizer_def foldl_insert_keys)

lemma normalizer_sorted: "sorted (map position (IssueNormalizer resolve entry rs))"
  by (simp add: IssueNormalizer_def)

text \<open>
  C7. If a sequence of raw issues contains, after an issue \<open>d\<close>, an issue \<open>d'\<close> with the
  same rule and the same resolved location, the normalizer gives the same result (the
  same list, hence the same set) as on the sequence without \<open>d'\<close>; and two such issues
  alone give exactly one entry.
\<close>

theorem normalizer_ignores_duplicate:
  assumes "ruleId d' = ruleId d"
    and "position (resolve_issue resolve entry d') = position (resolve_issue resolve entry d)"
  shows "IssueNormalizer resolve entry (xs @ d # ys @ d' # zs) =
           IssueNormalizer resolve entry (xs @ d # ys @ zs) \<and>
         set (IssueNormalizer resolve entry (xs @ d # ys @ d' # zs)) =
           set (IssueNormalizer resolve entry (xs @ d # ys @ zs)) \<and>
         length (IssueNormalizer resolve entry [d, d']) = 1"
proof -
  have rule: "c_ruleId (resolve_issue resolve entry r) = ruleId r" for r
    by (simp add: resolve_issue_def split: option.splits)
  have key: "issue_key (resolve_issue resolve entry d') = issue_key (resolve_issue resolve entry d)"
    using assms by (simp add: issue_key_def position_def rule)
  have same: "IssueNormalizer resolve entry (xs @ d # ys @ d' # zs) =
                IssueNormalizer resolve entry (xs @ d # ys @ zs)"
    unfolding IssueNormalizer_def
    using dedup_later_duplicate [OF key, of "[]" "map (resolve_issue resolve entry) xs"
        "map (resolve_issue resolve entry) ys" "map (resolve_issue resolve entry) zs"]
    by simp
  have "length (IssueNormalizer resolve entry [d, d']) = 1"
    using key by (simp add: IssueNormalizer_def insert_issue_def)
  with same show ?thesis by simp
qed

theorem normalizer_ignores_duplicate_witness:
  "ruleId (sample_issue\<lparr>message := ''Integer overflow, again''\<rparr>) = ruleId sample_issue \<and>
   position (resolve_issue (\<lambda>ref. if ref = ''120:8:0'' then Some (''/work/Token.sol'', 7, 3) else None)
      ''/work/Token.sol'' (sample_issue\<lparr>message := ''Integer overflow, again''\<rparr>)) =
   position (resolve_issue (\<lambda>ref. if ref = ''120:8:0'' then Some (''/work/Token.sol'', 7, 3) else None)
      ''/work/Token.sol'' sample_issue) \<and>
   IssueNormalizer (\<lambda>ref. if ref = ''120:8:0'' then Some (''/work/Token.sol'', 7, 3) else None)
      ''/work/Token.sol'' [sample_issue, sample_issue\<lparr>message := ''Integer overflow, again''\<rparr>] =
   IssueNormalizer (\<lambda>ref. if ref = ''120:8:0'' then Some (''/work/Token.sol'', 7, 3) else None)
      ''/work/Token.sol'' [sample_issue] \<and>
   IssueNormalizer (\<lambda>ref. if ref = ''120:8:0'' then Some (''/work/Token.sol'', 7, 3) else None)
      ''/work/Token.sol'' [sample_issue, sample_issue\<lparr>message := ''Integer overflow, again''\<rparr>] =
   [\<lparr>c_ruleId = ''SWC-101'', c_severity = ''High'', filePath = ''/work/Token.sol'', line = 7,
     column = 3, c_message = ''Integer overflow''\<rparr>]"
  using normalizer_ignores_duplicate
    [where d = sample_issue and d' = "sample_issue\<lparr>message := ''Integer overflow, again''\<rparr>"
      and resolve = "\<lambda>ref. if ref = ''120:8:0'' then Some (''/work/Token.sol'', 7, 3) else None"
      and entry = "''/work/Token.sol''" and xs = "[]" and ys = "[]" and zs = "[]"]
  by (simp add: sample_issue_def resolve_issue_def position_def IssueNormalizer_def
      insert_issue_def issue_key_def)

subsection \<open>C8: the order of the source list\<close>






subsection \<open>C9: a timeout among the outcomes\<close>






subsection \<open>C10: the trial identity\<close>

text \<open>
  C10. If the address or the password is unset, both are replaced by the trial identity,
  the address 0x0000000000000000000000000000000000000000 and the password \<^verbatim>\<open>trial\<close>; if
  the credentials in use are not the trial identity, then both variables are set and the
  credentials are theirs; and two variables that are set and not empty are kept.
\<close>

theorem trial_identity_fallback:
  "(ethAddress = None \<or> password = None \<longrightarrow>
      credentials ethAddress password =
        (Some ''0x0000000000000000000000000000000000000000'', Some ''trial'')) \<and>
   (credentials ethAddress password \<noteq>
        (Some ''0x0000000000000000000000000000000000000000'', Some ''trial'') \<longrightarrow>
      ethAddress \<noteq> None \<and> password \<noteq> None \<and>
      credentials ethAddress password = (ethAddress, password)) \<and>
   (\<forall>address secret. ethAddress = Some address \<and> password = Some secret \<and>
      address \<noteq> [] \<and> secret \<noteq> [] \<longrightarrow>
      credentials ethAddress password = (Some address, Some secret))"
  by (cases ethAddress; cases password)
    (auto simp: credentials_def trial_address_def trial_password_def)

theorem trial_identity_fallback_witness:
  "credentials (Some ''0x1111111111111111111111111111111111111111'') None =
     (Some ''0x0000000000000000000000000000000000000000'', Some ''trial'') \<and>
   credentials None (Some ''secret'') =
     (Some ''0x0000000000000000000000000000000000000000'', Some ''trial'') \<and>
   credentials (Some ''0x1111111111111111111111111111111111111111'') (Some ''secret'') \<noteq>
     (Some ''0x0000000000000000000000000000000000000000'', Some ''trial'') \<and>
   credentials (Some ''0x1111111111111111111111111111111111111111'') (Some ''secret'') =
     (Some ''0x1111111111111111111111111111111111111111'', Some ''secret'')"
proof -
  have no_password: "credentials (Some ''0x1111111111111111111111111111111111111111'') None =
      (Some ''0x0000000000000000000000000000000000000000'', Some ''trial'')"
    using trial_identity_fallback [of "Some ''0x1111111111111111111111111111111111111111''" None]
    by blast
  have no_address: "credentials None (Some ''secret'') =
      (Some ''0x0000000000000000000000000000000000000000'', Some ''trial'')"
    using trial_identity_fallback [of None "Some ''secret''"]
    by blast
  have filled: "''0x1111111111111111111111111111111111111111'' \<noteq> []" "''secret'' \<noteq> []"
    by simp_all
  have kept: "credentials (Some ''0x1111111111111111111111111111111111111111'')
      (Some ''secret'') = (Some ''0x1111111111111111111111111111111111111111'', Some ''secret'')"
    using trial_identity_fallback [of "Some ''0x1111111111111111111111111111111111111111''"
        "Some ''secret''"] filled
    by blast
  have "(Some ''0x1111111111111111111111111111111111111111'', Some ''secret'') \<noteq>
      (Some ''0x0000000000000000000000000000000000000000'', Some ''trial'')"
    by simp
  with no_password no_address kept show ?thesis by simp
qed

text \<open>The credentials and the URL of a submission are those of lines 17-19 and 72-75.\<close>

lemma submitted_credentials:
  assumes "Submit u ad pw d i t \<in> set (fst (sabre w e a))"
  shows "u = MYTHX_API_URL e \<and>
         (ad, pw) = credentials (MYTHX_ETH_ADDRESS e) (MYTHX_PASSWORD e)"
proof -
  from sabre_pipeline [OF assms] obtain p ver solc
    where "Submit u ad pw d i t \<in> set (fst (on_solc_loaded w a (MYTHX_API_URL e)
        (fst (credentials (MYTHX_ETH_ADDRESS e) (MYTHX_PASSWORD e)))
        (snd (credentials (MYTHX_ETH_ADDRESS e) (MYTHX_PASSWORD e))) p ver solc))"
    by auto
  from stage_submitted [OF this] show ?thesis by simp
qed

end
